theory Spec2Isabelle
  imports Main "HOL-Library.Word"
begin

section \<open>Values, exceptions and the HTTP transport\<close>

text \<open>
  The client of \<^verbatim>\<open>memgpt/client/client.py\<close> is embedded function by function.
  Every method takes the state of the outside world it acts on and returns the new one;
  an exception of the Python is the \<open>Inl\<close> branch of the result.
\<close>

datatype error =
    ValueError string
  | AssertionError string
  | NotImplementedError
  | ValidationError
  | TypeError
  | KeyError string
  | FileNotFoundError string
  | AttributeError

type_synonym UUID = "128 word"

text \<open>
  \<^verbatim>\<open>str(uuid)\<close>: the 32 lower-case hexadecimal digits of the 128-bit integer, grouped
  8-4-4-4-12.
\<close>

definition hex_digit :: "nat \<Rightarrow> char" where
  "hex_digit n = ''0123456789abcdef'' ! (n mod 16)"

fun hex_of :: "nat \<Rightarrow> nat \<Rightarrow> string" where
  "hex_of 0 n = []"
| "hex_of (Suc k) n = hex_of k (n div 16) @ [hex_digit n]"

definition str_uuid :: "UUID \<Rightarrow> string" where
  "str_uuid u =
     (let h = hex_of 32 (unat u)
      in take 8 h @ ''-'' @ take 4 (drop 8 h) @ ''-'' @ take 4 (drop 12 h) @ ''-'' @
         take 4 (drop 16 h) @ ''-'' @ drop 20 h)"

text \<open>\<^verbatim>\<open>str(n)\<close> for a status code.\<close>

definition dec_digit :: "nat \<Rightarrow> char" where
  "dec_digit n = ''0123456789'' ! (n mod 10)"

fun str_nat :: "nat \<Rightarrow> string" where
  "str_nat n = (if n < 10 then [dec_digit n] else str_nat (n div 10) @ [dec_digit n])"

declare str_nat.simps [simp del]

text \<open>An instant of time, the value of a \<^verbatim>\<open>datetime.datetime\<close>.\<close>

datatype datetime = Datetime int

text \<open>
  The dynamically typed values that travel through the fields the client rewrites in
  place: JSON data, and the UUID and datetime objects the client builds from them.
\<close>

datatype pyval =
    PNone
  | PBool bool
  | PInt int
  | PStr string
  | PList "pyval list"
  | PDict "(string \<times> pyval) list"
  | PUuid UUID
  | PDatetime datetime

text \<open>\<^verbatim>\<open>d[key]\<close> on a dictionary raises KeyError when the key is missing.\<close>

definition getitem :: "(string \<times> pyval) list \<Rightarrow> string \<Rightarrow> error + pyval" where
  "getitem d k = (case map_of d k of None \<Rightarrow> Inl (KeyError k) | Some v \<Rightarrow> Inr v)"

text \<open>\<^verbatim>\<open>str(x)\<close> of an optional string: \<^verbatim>\<open>str(None)\<close> is the text \<^verbatim>\<open>None\<close>.\<close>

definition str_opt :: "string option \<Rightarrow> string" where
  "str_opt x = (case x of None \<Rightarrow> ''None'' | Some s \<Rightarrow> s)"

text \<open>Truthiness of an optional string: \<^verbatim>\<open>None\<close> and the empty string are false.\<close>

definition truthy_str :: "string option \<Rightarrow> bool" where
  "truthy_str x = (case x of None \<Rightarrow> False | Some s \<Rightarrow> s \<noteq> [])"

text \<open>Truthiness of an optional object: only \<^verbatim>\<open>None\<close> is false.\<close>

definition truthy_obj :: "'a option \<Rightarrow> bool" where
  "truthy_obj x = (case x of None \<Rightarrow> False | Some _ \<Rightarrow> True)"

datatype http_method = GET | POST | PATCH | DELETE

datatype payload =
    NoPayload
  | JsonPayload pyval
  | ParamsPayload "(string \<times> pyval) list"
  | FilesPayload "(string \<times> string) list"

record request =
  rmethod :: http_method
  url :: string
  headers_of :: "(string \<times> string) list"
  body :: payload

record response =
  status_code :: nat
  text_of :: string

text \<open>
  The world outside the client: the requests issued so far, in order, and the sleeps
  taken so far, in order, each with its duration. The backend is any deterministic
  server: its response to a request is a function of the whole history of requests,
  the last being the one answered.
\<close>

record world =
  sent :: "request list"
  sleeps :: "nat list"

type_synonym backend = "request list \<Rightarrow> response"

definition http :: "backend \<Rightarrow> request \<Rightarrow> world \<Rightarrow> response \<times> world" where
  "http be rq w = (be (sent w @ [rq]), w\<lparr>sent := sent w @ [rq]\<rparr>)"

definition sleep :: "nat \<Rightarrow> world \<Rightarrow> world" where
  "sleep d w = w\<lparr>sleeps := sleeps w @ [d]\<rparr>"

text \<open>
  \<^verbatim>\<open>Model(**response.json())\<close>: the body is decoded by a decoder \<open>dec\<close> of the wire
  model, a parameter of each method that parses; a body that is not JSON or does not
  validate raises.
\<close>

definition parse :: "(string \<Rightarrow> 'a option) \<Rightarrow> response \<Rightarrow> error + 'a" where
  "parse dec r = (case dec (text_of r) of None \<Rightarrow> Inl ValidationError | Some x \<Rightarrow> Inr x)"

section \<open>Wire models and domain objects\<close>

record LLMConfig =
  model :: pyval
  model_endpoint_type :: pyval
  model_endpoint :: pyval
  model_wrapper :: pyval
  context_window :: pyval

record EmbeddingConfig =
  embedding_endpoint_type :: pyval
  embedding_endpoint :: pyval
  embedding_model :: pyval
  embedding_dim :: pyval
  embedding_chunk_size :: pyval

text \<open>\<^verbatim>\<open>AgentStateModel\<close>, the wire form of an agent; \<open>created_at\<close> is epoch seconds.\<close>

record AgentStateModel =
  am_id :: pyval
  am_name :: pyval
  am_user_id :: pyval
  am_preset :: pyval
  am_persona :: pyval
  am_human :: pyval
  am_llm_config :: LLMConfig
  am_embedding_config :: EmbeddingConfig
  am_state :: pyval
  am_created_at :: int

text \<open>\<^verbatim>\<open>GetAgentResponse\<close> and \<^verbatim>\<open>CreateAgentResponse\<close>.\<close>

record AgentResponse =
  agent_state :: AgentStateModel

record AgentState =
  as_id :: pyval
  as_name :: pyval
  as_user_id :: pyval
  as_preset :: pyval
  as_persona :: pyval
  as_human :: pyval
  as_llm_config :: LLMConfig
  as_embedding_config :: EmbeddingConfig
  as_state :: pyval
  as_created_at :: pyval

record RESTClient =
  base_url :: string
  headers :: "(string \<times> string) list"

section \<open>RESTClient: agents\<close>

text \<open>
  \<^verbatim>\<open>get_agent_response_to_state\<close>. \<open>fromtimestamp\<close> is
  \<^verbatim>\<open>datetime.datetime.fromtimestamp(_, tz=utc)\<close>, which raises on a value outside the
  years it can represent.
\<close>

definition get_agent_response_to_state ::
  "(int \<Rightarrow> datetime option) \<Rightarrow> AgentResponse \<Rightarrow> error + AgentState" where
  "get_agent_response_to_state fromtimestamp response =
     (let a = agent_state response;
          llm_config = \<lparr>model = model (am_llm_config a),
            model_endpoint_type = model_endpoint_type (am_llm_config a),
            model_endpoint = model_endpoint (am_llm_config a),
            model_wrapper = model_wrapper (am_llm_config a),
            context_window = context_window (am_llm_config a)\<rparr>;
          embedding_config = \<lparr>embedding_endpoint_type = embedding_endpoint_type (am_embedding_config a),
            embedding_endpoint = embedding_endpoint (am_embedding_config a),
            embedding_model = embedding_model (am_embedding_config a),
            embedding_dim = embedding_dim (am_embedding_config a),
            embedding_chunk_size = embedding_chunk_size (am_embedding_config a)\<rparr>
      in case fromtimestamp (am_created_at a) of
           None \<Rightarrow> Inl (ValueError ''timestamp out of range'')
         | Some t \<Rightarrow>
             Inr \<lparr>as_id = am_id a, as_name = am_name a, as_user_id = am_user_id a,
                  as_preset = am_preset a, as_persona = am_persona a, as_human = am_human a,
                  as_llm_config = llm_config, as_embedding_config = embedding_config,
                  as_state = am_state a, as_created_at = PDatetime t\<rparr>)"

definition opt_str :: "string option \<Rightarrow> pyval" where
  "opt_str x = (case x of None \<Rightarrow> PNone | Some s \<Rightarrow> PStr s)"

definition create_agent ::
  "backend \<Rightarrow> (string \<Rightarrow> AgentResponse option) \<Rightarrow> (int \<Rightarrow> datetime option) \<Rightarrow> RESTClient \<Rightarrow>
   string option \<Rightarrow> string option \<Rightarrow> string option \<Rightarrow> string option \<Rightarrow>
   EmbeddingConfig option \<Rightarrow> LLMConfig option \<Rightarrow> world \<Rightarrow> (error + AgentState) \<times> world" where
  "create_agent be dec fromtimestamp self name preset persona human embedding_config llm_config w =
     (if truthy_obj embedding_config \<or> truthy_obj llm_config
      then (Inl (ValueError ''Cannot override embedding_config or llm_config when creating agent via REST API''), w)
      else
        let payload = PDict [(''config'', PDict [(''name'', opt_str name), (''preset'', opt_str preset),
                        (''persona'', opt_str persona), (''human'', opt_str human)])];
            (response, w1) = http be \<lparr>rmethod = POST, url = base_url self @ ''/api/agents/create'',
                        headers_of = headers self, body = JsonPayload payload\<rparr> w
        in if status_code response \<noteq> 200
           then (Inl (ValueError (''Status '' @ str_nat (status_code response) @
                        '' - Failed to create agent: '' @ text_of response)), w1)
           else case parse dec response of
                  Inl e \<Rightarrow> (Inl e, w1)
                | Inr response_obj \<Rightarrow> (get_agent_response_to_state fromtimestamp response_obj, w1))"

text \<open>\<^verbatim>\<open>ListAgentsResponse\<close>: the agents as dictionaries, and their number.\<close>

record ListAgentsResponse =
  num_agents :: int
  agents :: "(string \<times> pyval) list list"

text \<open>\<^verbatim>\<open>RESTClient.list_agents\<close>: no look at the status code.\<close>

definition list_agents ::
  "backend \<Rightarrow> (string \<Rightarrow> ListAgentsResponse option) \<Rightarrow> RESTClient \<Rightarrow> world \<Rightarrow>
   (error + ListAgentsResponse) \<times> world" where
  "list_agents be dec self w =
     (let (response, w1) = http be \<lparr>rmethod = GET, url = base_url self @ ''/api/agents'',
                        headers_of = headers self, body = NoPayload\<rparr> w
      in (parse dec response, w1))"

text \<open>\<^verbatim>\<open>RESTClient.agent_exists\<close>: \<open>agent_name\<close> is never read.\<close>

definition agent_exists ::
  "backend \<Rightarrow> RESTClient \<Rightarrow> string option \<Rightarrow> string option \<Rightarrow> world \<Rightarrow> (error + bool) \<times> world" where
  "agent_exists be self agent_id agent_name w =
     (let (response, w1) = http be \<lparr>rmethod = GET,
                        url = base_url self @ ''/api/agents/'' @ str_opt agent_id @ ''/config'',
                        headers_of = headers self, body = NoPayload\<rparr> w
      in if status_code response = 404 then (Inr False, w1)
         else if status_code response = 200 then (Inr True, w1)
         else (Inl (ValueError (''Failed to check if agent exists: '' @ text_of response)), w1))"

text \<open>
  \<^verbatim>\<open>RESTClient.get_messages\<close>; \<open>before\<close>, \<open>after\<close> and \<open>limit\<close> go into the query
  as they are.
\<close>

definition RESTClient_get_messages ::
  "backend \<Rightarrow> (string \<Rightarrow> 'a option) \<Rightarrow> RESTClient \<Rightarrow> UUID \<Rightarrow> UUID option \<Rightarrow> UUID option \<Rightarrow>
   int option \<Rightarrow> world \<Rightarrow> (error + 'a) \<times> world" where
  "RESTClient_get_messages be dec self agent_id before after limit w =
     (let params = [(''before'', case before of None \<Rightarrow> PNone | Some u \<Rightarrow> PUuid u),
                    (''after'', case after of None \<Rightarrow> PNone | Some u \<Rightarrow> PUuid u),
                    (''limit'', case limit of None \<Rightarrow> PNone | Some n \<Rightarrow> PInt n)];
          (response, w1) = http be \<lparr>rmethod = GET,
                        url = base_url self @ ''/api/agents/'' @ str_uuid agent_id @ ''/messages-cursor'',
                        headers_of = headers self, body = ParamsPayload params\<rparr> w
      in if status_code response \<noteq> 200
         then (Inl (ValueError (''Failed to get messages: '' @ text_of response)), w1)
         else (parse dec response, w1))"

section \<open>RESTClient: sources and jobs\<close>

text \<open>
  An identifier as a field holds it: the string of the wire, or a UUID object.
  \<^verbatim>\<open>uuid.UUID(x)\<close> parses a string (\<open>uuid_of\<close>, a parameter; a malformed string
  raises ValueError) and raises on anything else.
\<close>

datatype idval = IdStr string | IdUuid UUID

definition str_id :: "idval \<Rightarrow> string" where
  "str_id x = (case x of IdStr s \<Rightarrow> s | IdUuid u \<Rightarrow> str_uuid u)"

definition UUID_of :: "(string \<Rightarrow> UUID option) \<Rightarrow> idval \<Rightarrow> error + UUID" where
  "UUID_of uuid_of x =
     (case x of
        IdUuid u \<Rightarrow> Inl TypeError
      | IdStr s \<Rightarrow>
          (case uuid_of s of
             None \<Rightarrow> Inl (ValueError ''badly formed hexadecimal UUID string'')
           | Some u \<Rightarrow> Inr u))"

text \<open>
  The \<open>embedding_config\<close> field of a source: the dictionary of the wire, or the
  \<^verbatim>\<open>EmbeddingConfig\<close> object \<^verbatim>\<open>list_sources\<close> puts in its place.
\<close>

datatype cfgval = CfgDict "(string \<times> pyval) list" | CfgObj EmbeddingConfig

definition cfg_getitem :: "cfgval \<Rightarrow> string \<Rightarrow> error + pyval" where
  "cfg_getitem c k = (case c of CfgDict d \<Rightarrow> getitem d k | CfgObj _ \<Rightarrow> Inl TypeError)"

record SourceModel =
  sm_name :: string
  sm_description :: pyval
  sm_user_id :: idval
  sm_created_at :: pyval
  sm_id :: idval
  sm_embedding_config :: cfgval

record ListSourcesResponse =
  sources :: "SourceModel list"

text \<open>\<^verbatim>\<open>memgpt.data_types.Source\<close>, as \<^verbatim>\<open>create_source\<close> fills it.\<close>

record Source =
  src_id :: UUID
  src_name :: string
  src_user_id :: UUID
  src_created_at :: pyval
  src_embedding_dim :: pyval
  src_embedding_model :: pyval

text \<open>Sequencing of steps that may raise.\<close>

definition and_then :: "error + 'a \<Rightarrow> ('a \<Rightarrow> error + 'b) \<Rightarrow> error + 'b" where
  "and_then r f = (case r of Inl e \<Rightarrow> Inl e | Inr x \<Rightarrow> f x)"

text \<open>
  \<^verbatim>\<open>datetime.datetime.strptime(s, date_format)\<close>: \<open>strptime\<close> is the library's
  parser, a parameter; text that does not match the format raises ValueError, a value
  that is not text raises TypeError.
\<close>

definition date_format :: string where
  "date_format = ''%Y-%m-%dT%H:%M:%S.%f''"

definition strptime_val ::
  "(string \<Rightarrow> string \<Rightarrow> datetime option) \<Rightarrow> pyval \<Rightarrow> string \<Rightarrow> error + datetime" where
  "strptime_val strptime v fmt =
     (case v of
        PStr s \<Rightarrow>
          (case strptime s fmt of
             None \<Rightarrow> Inl (ValueError ''time data does not match format'')
           | Some t \<Rightarrow> Inr t)
      | _ \<Rightarrow> Inl TypeError)"

text \<open>The body of the loop of \<^verbatim>\<open>RESTClient.list_sources\<close>, on one source.\<close>

definition list_sources_body ::
  "(string \<Rightarrow> UUID option) \<Rightarrow> (string \<Rightarrow> string \<Rightarrow> datetime option) \<Rightarrow> SourceModel \<Rightarrow>
   error + SourceModel" where
  "list_sources_body uuid_of strptime source =
     and_then (UUID_of uuid_of (sm_user_id source)) (\<lambda>uid.
     and_then (strptime_val strptime (sm_created_at source) date_format) (\<lambda>t.
     and_then (cfg_getitem (sm_embedding_config source) ''embedding_endpoint_type'') (\<lambda>et.
     and_then (cfg_getitem (sm_embedding_config source) ''embedding_endpoint'') (\<lambda>ep.
     and_then (cfg_getitem (sm_embedding_config source) ''embedding_dim'') (\<lambda>dim.
     and_then (cfg_getitem (sm_embedding_config source) ''embedding_model'') (\<lambda>em.
     and_then (cfg_getitem (sm_embedding_config source) ''embedding_chunk_size'') (\<lambda>cs.
       Inr (source\<lparr>sm_user_id := IdUuid uid, sm_created_at := PDatetime t,
              sm_embedding_config := CfgObj \<lparr>embedding_endpoint_type = et,
                embedding_endpoint = ep, embedding_model = em, embedding_dim = dim,
                embedding_chunk_size = cs\<rparr>\<rparr>))))))))"

fun list_sources_loop ::
  "(string \<Rightarrow> UUID option) \<Rightarrow> (string \<Rightarrow> string \<Rightarrow> datetime option) \<Rightarrow> SourceModel list \<Rightarrow>
   error + SourceModel list" where
  "list_sources_loop uuid_of strptime [] = Inr []"
| "list_sources_loop uuid_of strptime (source # rest) =
     and_then (list_sources_body uuid_of strptime source) (\<lambda>s.
     and_then (list_sources_loop uuid_of strptime rest) (\<lambda>ss. Inr (s # ss)))"

definition list_sources ::
  "backend \<Rightarrow> (string \<Rightarrow> ListSourcesResponse option) \<Rightarrow> (string \<Rightarrow> UUID option) \<Rightarrow>
   (string \<Rightarrow> string \<Rightarrow> datetime option) \<Rightarrow> RESTClient \<Rightarrow> world \<Rightarrow>
   (error + SourceModel list) \<times> world" where
  "list_sources be dec uuid_of strptime self w =
     (let (response, w1) = http be \<lparr>rmethod = GET, url = base_url self @ ''/api/sources'',
                        headers_of = headers self, body = NoPayload\<rparr> w
      in (and_then (parse dec response)
            (\<lambda>r. list_sources_loop uuid_of strptime (sources r)), w1))"

text \<open>
  The loop of \<^verbatim>\<open>RESTClient.delete_source\<close>: the id of the first source of that
  name, and the id held before the loop when there is none.
\<close>

fun delete_source_loop :: "SourceModel list \<Rightarrow> string \<Rightarrow> idval \<Rightarrow> idval" where
  "delete_source_loop [] source_name source_id = source_id"
| "delete_source_loop (source # rest) source_name source_id =
     (if sm_name source = source_name then sm_id source
      else delete_source_loop rest source_name source_id)"

definition delete_source ::
  "backend \<Rightarrow> (string \<Rightarrow> ListSourcesResponse option) \<Rightarrow> RESTClient \<Rightarrow> string \<Rightarrow> world \<Rightarrow>
   (error + unit) \<times> world" where
  "delete_source be dec self source_name w =
     (let (get_sources, w1) = http be \<lparr>rmethod = GET, url = base_url self @ ''/api/sources'',
                        headers_of = headers self, body = NoPayload\<rparr> w
      in case parse dec get_sources of
           Inl e \<Rightarrow> (Inl e, w1)
         | Inr r \<Rightarrow>
             let source_id = delete_source_loop (sources r) source_name (IdUuid 0);
                 (response, w2) = http be \<lparr>rmethod = DELETE,
                        url = base_url self @ ''/api/sources/'' @ str_id source_id,
                        headers_of = headers self, body = NoPayload\<rparr> w1
             in if status_code response = 200 then (Inr (), w2)
                else (Inl (AssertionError (''Failed to delete source: '' @ text_of response)), w2))"

text \<open>
  \<^verbatim>\<open>JobStatus\<close> and \<^verbatim>\<open>JobModel\<close> are declared outside this file. Modelled from the
  spec: a job has an identity, a status out of submitted (pending), running, completed
  and failed, and free-form metadata.
\<close>

datatype JobStatus = submitted | running | completed | failed

record JobModel =
  jm_id :: idval
  status :: JobStatus
  metadata :: pyval

text \<open>\<^verbatim>\<open>RESTClient.get_job_status\<close>: no look at the status code.\<close>

definition get_job_status ::
  "backend \<Rightarrow> (string \<Rightarrow> JobModel option) \<Rightarrow> RESTClient \<Rightarrow> idval \<Rightarrow> world \<Rightarrow>
   (error + JobModel) \<times> world" where
  "get_job_status be dec self job_id w =
     (let (response, w1) = http be \<lparr>rmethod = GET,
                        url = base_url self @ ''/api/sources/status/'' @ str_id job_id,
                        headers_of = headers self, body = NoPayload\<rparr> w
      in (parse dec response, w1))"

text \<open>
  The \<^verbatim>\<open>while True\<close> loop of \<^verbatim>\<open>RESTClient.load_file_into_source\<close>. It has no bound,
  so its value is an option: \<open>None\<close> is the loop that never ends. \<open>str_py\<close> is
  \<^verbatim>\<open>str\<close> on the metadata, as the f-string applies it.
\<close>

partial_function (option) load_file_into_source_loop ::
  "backend \<Rightarrow> (string \<Rightarrow> JobModel option) \<Rightarrow> (pyval \<Rightarrow> string) \<Rightarrow> RESTClient \<Rightarrow> idval \<Rightarrow> world \<Rightarrow>
   ((error + JobModel) \<times> world) option" where
  "load_file_into_source_loop be dec str_py self job_id w =
     (case get_job_status be dec self job_id w of
        (Inl e, w1) \<Rightarrow> Some (Inl e, w1)
      | (Inr job, w1) \<Rightarrow>
          if status job = completed then Some (Inr job, w1)
          else if status job = failed
          then Some (Inl (ValueError (''Job failed: '' @ str_py (metadata job))), w1)
          else load_file_into_source_loop be dec str_py self (jm_id job) (sleep 1 w1))"

text \<open>
  One turn of that loop which finds the job neither completed nor failed: it relates
  the job id and the world before the status query to those after the sleep. Its
  reflexive transitive closure is any number of such turns.
\<close>

definition poll_again ::
  "backend \<Rightarrow> (string \<Rightarrow> JobModel option) \<Rightarrow> RESTClient \<Rightarrow> idval \<times> world \<Rightarrow> idval \<times> world \<Rightarrow>
   bool" where
  "poll_again be dec self p p' =
     (case get_job_status be dec self (fst p) (snd p) of
        (Inl e, w1) \<Rightarrow> False
      | (Inr job, w1) \<Rightarrow>
          status job \<noteq> completed \<and> status job \<noteq> failed \<and> p' = (jm_id job, sleep 1 w1))"

text \<open>
  \<^verbatim>\<open>RESTClient.load_file_into_source\<close>. \<open>fopen\<close> is the file system: the content of
  the file of that name, if there is one.
\<close>

definition load_file_into_source ::
  "backend \<Rightarrow> (string \<Rightarrow> JobModel option) \<Rightarrow> (pyval \<Rightarrow> string) \<Rightarrow> (string \<Rightarrow> string option) \<Rightarrow>
   RESTClient \<Rightarrow> string \<Rightarrow> UUID \<Rightarrow> bool \<Rightarrow> world \<Rightarrow> ((error + JobModel) \<times> world) option" where
  "load_file_into_source be dec str_py fopen self filename source_id blocking w =
     (case fopen filename of
        None \<Rightarrow> Some (Inl (FileNotFoundError filename), w)
      | Some content \<Rightarrow>
          let (response, w1) = http be \<lparr>rmethod = POST,
                        url = base_url self @ ''/api/sources/'' @ str_uuid source_id @ ''/upload'',
                        headers_of = headers self, body = FilesPayload [(''file'', content)]\<rparr> w
          in if status_code response \<noteq> 200
             then Some (Inl (ValueError (''Failed to upload file to source: '' @ text_of response)), w1)
             else (case parse dec response of
                     Inl e \<Rightarrow> Some (Inl e, w1)
                   | Inr job \<Rightarrow>
                       if blocking then load_file_into_source_loop be dec str_py self (jm_id job) w1
                       else Some (Inr job, w1)))"

text \<open>\<^verbatim>\<open>RESTClient.create_source\<close>: no look at the status code; \<open>created_at\<close> is copied.\<close>

definition create_source ::
  "backend \<Rightarrow> (string \<Rightarrow> SourceModel option) \<Rightarrow> (string \<Rightarrow> UUID option) \<Rightarrow> RESTClient \<Rightarrow>
   string \<Rightarrow> string option \<Rightarrow> world \<Rightarrow> (error + Source) \<times> world" where
  "create_source be dec uuid_of self name description w =
     (let payload = PDict [(''name'', PStr name), (''description'', opt_str description)];
          (response, w1) = http be \<lparr>rmethod = POST, url = base_url self @ ''/api/sources'',
                        headers_of = headers self, body = JsonPayload payload\<rparr> w
      in (and_then (parse dec response) (\<lambda>response_obj.
          and_then (UUID_of uuid_of (sm_id response_obj)) (\<lambda>i.
          and_then (UUID_of uuid_of (sm_user_id response_obj)) (\<lambda>uid.
          and_then (cfg_getitem (sm_embedding_config response_obj) ''embedding_dim'') (\<lambda>dim.
          and_then (cfg_getitem (sm_embedding_config response_obj) ''embedding_model'') (\<lambda>em.
            Inr \<lparr>src_id = i, src_name = sm_name response_obj, src_user_id = uid,
                 src_created_at = sm_created_at response_obj,
                 src_embedding_dim = dim, src_embedding_model = em\<rparr>))))), w1))"

section \<open>LocalClient\<close>

record User =
  user_id :: UUID
  default_agent :: "string option"
  policies_accepted :: bool

text \<open>
  Modelled from the spec: the metadata store (\<^verbatim>\<open>memgpt.metadata.MetadataStore\<close>) is
  not part of this file. It holds the User records and the preset records; \<open>get_user\<close>
  finds the record of an id, \<open>update_user\<close> refreshes the records of that id in place,
  and \<open>create_user\<close> is create-or-fail: it adds a record and raises when the id is
  already there. The preset table is of any type \<open>'p\<close>.
\<close>

record 'p MetadataStore =
  users :: "User list"
  presets :: 'p

definition ms_get_user :: "'p MetadataStore \<Rightarrow> UUID \<Rightarrow> User option" where
  "ms_get_user ms uid = find (\<lambda>u. user_id u = uid) (users ms)"

definition ms_update_user :: "User \<Rightarrow> 'p MetadataStore \<Rightarrow> 'p MetadataStore" where
  "ms_update_user user ms =
     ms\<lparr>users := map (\<lambda>u. if user_id u = user_id user then user else u) (users ms)\<rparr>"

definition ms_create_user :: "User \<Rightarrow> 'p MetadataStore \<Rightarrow> error + 'p MetadataStore" where
  "ms_create_user user ms =
     (if list_ex (\<lambda>u. user_id u = user_id user) (users ms)
      then Inl (ValueError (''User with id '' @ str_uuid (user_id user) @ '' already exists''))
      else Inr (ms\<lparr>users := users ms @ [user]\<rparr>))"

record MemGPTConfig =
  anon_clientid :: string

record LocalClient =
  auto_save :: bool
  lc_user_id :: UUID
  lc_user :: User

text \<open>
  The mutable state behind a local client: its queuing interface, of any type \<open>'q\<close>,
  and its server, of any type \<open>'s\<close>.
\<close>

record ('q, 's) local_state =
  interface :: 'q
  server :: 's

text \<open>
  \<^verbatim>\<open>LocalClient.__init__\<close>, on the store \<open>ms\<close> the configuration opens.
  \<open>add_default_presets\<close> (\<^verbatim>\<open>memgpt.presets.presets\<close>) is a parameter that acts on
  the preset table; the fresh interface and server are parameters as well.
\<close>

definition LocalClient_init ::
  "(string \<Rightarrow> UUID option) \<Rightarrow> (UUID \<Rightarrow> 'p \<Rightarrow> 'p) \<Rightarrow> 'q \<Rightarrow> 's \<Rightarrow> MemGPTConfig \<Rightarrow> bool \<Rightarrow>
   string option \<Rightarrow> 'p MetadataStore \<Rightarrow>
   error + (LocalClient \<times> ('q, 's) local_state \<times> 'p MetadataStore)" where
  "LocalClient_init uuid_of add_default_presets new_interface new_server config auto_save_arg
     user_id_arg ms =
     and_then (UUID_of uuid_of (IdStr (case user_id_arg of
                                   None \<Rightarrow> anon_clientid config
                                 | Some s \<Rightarrow> if s \<noteq> [] then s else anon_clientid config)))
       (\<lambda>uid.
          let user = \<lparr>user_id = uid, default_agent = None, policies_accepted = False\<rparr>
          in and_then (if truthy_obj (ms_get_user ms uid) then Inr (ms_update_user user ms)
                       else ms_create_user user ms)
               (\<lambda>ms1. Inr (\<lparr>auto_save = auto_save_arg, lc_user_id = uid, lc_user = user\<rparr>,
                            \<lparr>interface = new_interface, server = new_server\<rparr>,
                            ms1\<lparr>presets := add_default_presets uid (presets ms1)\<rparr>)))"

text \<open>
  \<^verbatim>\<open>LocalClient.list_agents\<close> and \<^verbatim>\<open>LocalClient.agent_exists\<close>. \<open>srv_list_agents\<close>
  is the server's listing, as the response object built from it. \<open>subscript\<close> is
  \<^verbatim>\<open>existing[key]\<close> on that object: its class is declared outside this file, and an
  object that is not subscriptable raises TypeError there.
\<close>

definition LocalClient_list_agents ::
  "('q \<Rightarrow> 'q) \<Rightarrow> (UUID \<Rightarrow> 's \<Rightarrow> ListAgentsResponse) \<Rightarrow> LocalClient \<Rightarrow>
   ('q, 's) local_state \<Rightarrow> ListAgentsResponse \<times> ('q, 's) local_state" where
  "LocalClient_list_agents clear srv_list_agents self st =
     (let st1 = st\<lparr>interface := clear (interface st)\<rparr>
      in (srv_list_agents (lc_user_id self) (server st1), st1))"

fun getitems :: "(string \<times> pyval) list list \<Rightarrow> string \<Rightarrow> error + pyval list" where
  "getitems [] k = Inr []"
| "getitems (d # ds) k =
     and_then (getitem d k) (\<lambda>v. and_then (getitems ds k) (\<lambda>vs. Inr (v # vs)))"

definition LocalClient_agent_exists ::
  "('q \<Rightarrow> 'q) \<Rightarrow> (UUID \<Rightarrow> 's \<Rightarrow> ListAgentsResponse) \<Rightarrow>
   (ListAgentsResponse \<Rightarrow> string \<Rightarrow> error + (string \<times> pyval) list list) \<Rightarrow> LocalClient \<Rightarrow>
   string option \<Rightarrow> string option \<Rightarrow> ('q, 's) local_state \<Rightarrow>
   (error + bool) \<times> ('q, 's) local_state" where
  "LocalClient_agent_exists clear srv_list_agents subscript self agent_id agent_name st =
     (if \<not> (truthy_str agent_id \<or> truthy_str agent_name)
      then (Inl (ValueError ''Either agent_id or agent_name must be provided''), st)
      else if truthy_str agent_id \<and> truthy_str agent_name
      then (Inl (ValueError ''Only one of agent_id or agent_name can be provided''), st)
      else
        let (existing, st1) = LocalClient_list_agents clear srv_list_agents self st
        in if truthy_str agent_id
           then (and_then (subscript existing ''agents'') (\<lambda>ags.
                 and_then (getitems ags ''id'') (\<lambda>ids. Inr (opt_str agent_id \<in> set ids))), st1)
           else (and_then (subscript existing ''agents'') (\<lambda>ags.
                 and_then (getitems ags ''name'') (\<lambda>ns. Inr (opt_str agent_name \<in> set ns))), st1))"

text \<open>
  \<^verbatim>\<open>LocalClient.save\<close> and \<^verbatim>\<open>LocalClient.user_message\<close>. The server's operations
  are parameters: \<open>srv_user_message\<close> runs with the interface at hand and leaves its
  messages there, and may raise; \<open>save_agents\<close> may raise. \<open>clear\<close> and \<open>to_list\<close>
  are the methods of the queuing interface; \<open>to_list\<close> gives the messages it drains
  and the interface left behind.
\<close>

record UserMessageResponse =
  messages :: "pyval list"

definition LocalClient_save ::
  "('s \<Rightarrow> error + 's) \<Rightarrow> ('q, 's) local_state \<Rightarrow> (error + unit) \<times> ('q, 's) local_state" where
  "LocalClient_save save_agents st =
     (case save_agents (server st) of
        Inl e \<Rightarrow> (Inl e, st)
      | Inr srv \<Rightarrow> (Inr (), st\<lparr>server := srv\<rparr>))"

definition LocalClient_user_message ::
  "('q \<Rightarrow> 'q) \<Rightarrow> ('q \<Rightarrow> pyval list \<times> 'q) \<Rightarrow>
   (UUID \<Rightarrow> string \<Rightarrow> string \<Rightarrow> 'q \<Rightarrow> 's \<Rightarrow> (error + unit) \<times> 'q \<times> 's) \<Rightarrow> ('s \<Rightarrow> error + 's) \<Rightarrow>
   LocalClient \<Rightarrow> string \<Rightarrow> string \<Rightarrow> ('q, 's) local_state \<Rightarrow>
   (error + UserMessageResponse option) \<times> ('q, 's) local_state" where
  "LocalClient_user_message clear to_list srv_user_message save_agents self agent_id message st =
     (let st1 = st\<lparr>interface := clear (interface st)\<rparr>;
          (r, q, srv) = srv_user_message (lc_user_id self) agent_id message (interface st1) (server st1);
          st2 = st1\<lparr>interface := q, server := srv\<rparr>
      in case r of
           Inl e \<Rightarrow> (Inl e, st2)
         | Inr _ \<Rightarrow>
             if auto_save self
             then (case LocalClient_save save_agents st2 of
                     (Inl e, st3) \<Rightarrow> (Inl e, st3)
                   | (Inr _, st3) \<Rightarrow> (Inr None, st3))
             else let (msgs, q') = to_list (interface st2)
                  in (Inr (Some \<lparr>messages = msgs\<rparr>), st2\<lparr>interface := q'\<rparr>))"

section \<open>Method resolution\<close>

text \<open>
  The three classes, and for each the methods its body defines. A call on an instance
  runs the definition of the first class of the resolution order that has one.
\<close>

datatype client_class = AbstractClient_class | RESTClient_class | LocalClient_class

definition class_methods :: "client_class \<Rightarrow> string list" where
  "class_methods c =
     (case c of
        AbstractClient_class \<Rightarrow>
          [''__init__'', ''list_agents'', ''agent_exists'', ''create_agent'', ''rename_agent'',
           ''delete_agent'', ''get_agent'', ''get_agent_config'', ''update_agent'', ''save_agent'',
           ''get_user'', ''create_user'', ''get_preset'', ''add_default_presets'', ''create_preset'',
           ''delete_preset'', ''list_presets'', ''get_agent_memory'', ''update_agent_core_memory'',
           ''user_message'', ''run_command'', ''save'', ''get_agent_archival_memory'',
           ''insert_archival_memory'', ''delete_archival_memory'', ''get_messages'', ''send_message'',
           ''list_humans'', ''create_human'', ''get_human'', ''add_human'', ''update_human'',
           ''delete_human'', ''list_personas'', ''create_persona'', ''add_persona'', ''list_tools'',
           ''create_tool'', ''list_sources'', ''delete_source'', ''load_file_into_source'',
           ''create_source'', ''attach_source_to_agent'', ''detach_source'', ''list_models'',
           ''get_config'']
      | RESTClient_class \<Rightarrow>
          [''__init__'', ''list_agents'', ''agent_exists'', ''create_agent'',
           ''get_agent_response_to_state'', ''rename_agent'', ''delete_agent'', ''get_agent_config'',
           ''update_agent'', ''save_agent'', ''get_user'', ''create_user'', ''create_preset'',
           ''add_default_presets'', ''get_preset'', ''get_preset_sources'', ''create_preset_from_file'',
           ''delete_preset'', ''list_presets'', ''get_agent_memory'', ''update_agent_core_memory'',
           ''user_message'', ''run_command'', ''save'', ''get_agent_archival_memory'',
           ''insert_archival_memory'', ''delete_archival_memory'', ''get_messages'', ''send_message'',
           ''list_humans'', ''get_human'', ''add_human'', ''update_human'', ''delete_human'',
           ''list_personas'', ''get_persona'', ''add_persona'', ''update_persona'', ''delete_persona'',
           ''list_sources'', ''delete_source'', ''get_job_status'', ''load_file_into_source'',
           ''create_source'', ''attach_source_to_agent'', ''detach_source'', ''list_models'',
           ''get_config'']
      | LocalClient_class \<Rightarrow>
          [''__init__'', ''list_agents'', ''agent_exists'', ''create_agent'', ''get_agent_config'',
           ''update_agent'', ''save_agent'', ''delete_agent'', ''get_user'', ''create_user'',
           ''create_preset'', ''add_default_presets'', ''create_preset_from_file'', ''get_preset'',
           ''delete_preset'', ''list_presets'', ''get_preset_sources'', ''get_agent_memory'',
           ''update_agent_core_memory'', ''user_message'', ''run_command'', ''save'',
           ''get_agent_archival_memory'', ''list_humans'', ''get_human'', ''add_human'',
           ''update_human'', ''delete_human'', ''list_personas'', ''get_persona'', ''add_persona'',
           ''update_persona'', ''delete_persona'', ''list_sources'', ''create_source'',
           ''attach_source_to_agent'', ''delete_source'', ''get_config''])"

definition mro :: "client_class \<Rightarrow> client_class list" where
  "mro c =
     (case c of
        AbstractClient_class \<Rightarrow> [AbstractClient_class]
      | RESTClient_class \<Rightarrow> [RESTClient_class, AbstractClient_class]
      | LocalClient_class \<Rightarrow> [LocalClient_class, AbstractClient_class])"

definition resolve :: "client_class \<Rightarrow> string \<Rightarrow> client_class option" where
  "resolve c name = find (\<lambda>k. name \<in> set (class_methods k)) (mro c)"

text \<open>\<^verbatim>\<open>AbstractClient.get_messages\<close>.\<close>

definition AbstractClient_get_messages ::
  "UUID \<Rightarrow> UUID option \<Rightarrow> UUID option \<Rightarrow> int option \<Rightarrow> world \<Rightarrow> (error + 'a) \<times> world" where
  "AbstractClient_get_messages agent_id before after limit w = (Inl NotImplementedError, w)"

text \<open>
  The call \<^verbatim>\<open>client.get_messages(agent_id, before, after, limit)\<close> on an instance of
  class \<open>c\<close>; a name no class of the resolution order defines raises AttributeError.
\<close>

definition get_messages ::
  "client_class \<Rightarrow> backend \<Rightarrow> (string \<Rightarrow> 'a option) \<Rightarrow> RESTClient \<Rightarrow> UUID \<Rightarrow> UUID option \<Rightarrow>
   UUID option \<Rightarrow> int option \<Rightarrow> world \<Rightarrow> (error + 'a) \<times> world" where
  "get_messages c be dec self agent_id before after limit w =
     (case resolve c ''get_messages'' of
        Some AbstractClient_class \<Rightarrow> AbstractClient_get_messages agent_id before after limit w
      | Some RESTClient_class \<Rightarrow> RESTClient_get_messages be dec self agent_id before after limit w
      | _ \<Rightarrow> (Inl AttributeError, w))"

section \<open>Fake collaborators for the scenarios\<close>

text \<open>
  A scripted backend: it answers the n-th request with status 200 and the n-th body of
  the script, the last body from then on. \<open>fake_job\<close> decodes the four bodies a job
  status query can carry. \<open>fake_str\<close> is \<^verbatim>\<open>str\<close> on the metadata of these jobs:
  \<^verbatim>\<open>None\<close>, and a dictionary with one entry whose key and value are plain words, which
  Python prints as \<^verbatim>\<open>{'key': 'value'}\<close>.
\<close>

definition fake_backend :: "string list \<Rightarrow> backend" where
  "fake_backend bodies h =
     \<lparr>status_code = 200, text_of = bodies ! min (length h - 1) (length bodies - 1)\<rparr>"

definition fake_job :: "string \<Rightarrow> JobModel option" where
  "fake_job t =
     (if t = ''submitted'' then Some \<lparr>jm_id = IdStr ''j1'', status = submitted, metadata = PNone\<rparr>
      else if t = ''running'' then Some \<lparr>jm_id = IdStr ''j1'', status = running, metadata = PNone\<rparr>
      else if t = ''completed'' then Some \<lparr>jm_id = IdStr ''j1'', status = completed, metadata = PNone\<rparr>
      else if t = ''failed''
      then Some \<lparr>jm_id = IdStr ''j1'', status = failed,
                 metadata = PDict [(''reason'', PStr ''bad encoding'')]\<rparr>
      else None)"

definition fake_str :: "pyval \<Rightarrow> string" where
  "fake_str v =
     (case v of
        PDict [(k, PStr s)] \<Rightarrow>
          ''{'' @ [CHR 0x27] @ k @ [CHR 0x27] @ '': '' @ [CHR 0x27] @ s @ [CHR 0x27] @ ''}''
      | _ \<Rightarrow> ''None'')"

definition fake_client :: RESTClient where
  "fake_client = \<lparr>base_url = ''http://h'', headers = []\<rparr>"

definition upload_request :: request where
  "upload_request = \<lparr>rmethod = POST,
     url = ''http://h/api/sources/00000000-0000-0000-0000-000000000000/upload'',
     headers_of = [], body = FilesPayload [(''file'', ''data'')]\<rparr>"

definition status_request :: request where
  "status_request = \<lparr>rmethod = GET, url = ''http://h/api/sources/status/j1'',
     headers_of = [], body = NoPayload\<rparr>"

text \<open>A backend with one source, named \<^verbatim>\<open>docs\<close>, that knows no other source.\<close>

definition fake_listing :: "string \<Rightarrow> ListSourcesResponse option" where
  "fake_listing t =
     (if t = ''listing''
      then Some \<lparr>sources = [\<lparr>sm_name = ''docs'', sm_description = PNone, sm_user_id = IdStr ''u1'',
                               sm_created_at = PStr ''2024-01-01T00:00:00.000000'',
                               sm_id = IdStr ''s1'', sm_embedding_config = CfgDict []\<rparr>]\<rparr>
      else None)"

definition fake_sources_backend :: backend where
  "fake_sources_backend h =
     (if length h = 1 then \<lparr>status_code = 200, text_of = ''listing''\<rparr>
      else \<lparr>status_code = 404, text_of = ''Source not found''\<rparr>)"

text \<open>
  \<^verbatim>\<open>uuid.UUID\<close> on the two well-formed identifiers the scenarios use, the texts of
  the UUIDs 1 and 2; every other text is taken as malformed.
\<close>

definition fake_uuid_of :: "string \<Rightarrow> UUID option" where
  "fake_uuid_of s =
     (if s = ''00000000-0000-0000-0000-000000000001'' then Some 1
      else if s = ''00000000-0000-0000-0000-000000000002'' then Some 2
      else None)"

section \<open>Properties\<close>

subsection \<open>Timestamps\<close>

lemma get_agent_response_to_state_created_at:
  "get_agent_response_to_state fromtimestamp response = Inr a \<Longrightarrow>
   \<exists>t. fromtimestamp (am_created_at (agent_state response)) = Some t \<and> as_created_at a = PDatetime t"
  by (auto simp: get_agent_response_to_state_def Let_def split: option.splits)

lemma get_agent_response_to_state_unparsable:
  "fromtimestamp (am_created_at (agent_state response)) = None \<Longrightarrow>
   get_agent_response_to_state fromtimestamp response = Inl (ValueError ''timestamp out of range'')"
  by (simp add: get_agent_response_to_state_def Let_def)

lemma list_sources_body_created_at:
  "list_sources_body uuid_of strptime source = Inr s \<Longrightarrow>
   \<exists>x t. sm_created_at source = PStr x \<and> strptime x date_format = Some t \<and> sm_created_at s = PDatetime t"
  by (auto simp: list_sources_body_def and_then_def strptime_val_def
      split: sum.splits pyval.splits option.splits)

lemma list_sources_body_unparsable:
  assumes "UUID_of uuid_of (sm_user_id source) = Inr uid"
    and "sm_created_at source = PStr x"
    and "strptime x date_format = None"
  shows "list_sources_body uuid_of strptime source = Inl (ValueError ''time data does not match format'')"
  using assms by (simp add: list_sources_body_def and_then_def strptime_val_def)

lemma list_sources_loop_created_at:
  "list_sources_loop uuid_of strptime ss = Inr rs \<Longrightarrow> s \<in> set rs \<Longrightarrow> \<exists>t. sm_created_at s = PDatetime t"
proof (induction ss arbitrary: rs)
  case Nil
  then show ?case by simp
next
  case (Cons a ss)
  from Cons.prems(1) obtain b bs where b: "list_sources_body uuid_of strptime a = Inr b"
    and bs: "list_sources_loop uuid_of strptime ss = Inr bs" and rs: "rs = b # bs"
    by (auto simp: and_then_def split: sum.splits)
  show ?case
  proof (cases "s = b")
    case True
    with list_sources_body_created_at [OF b] show ?thesis by blast
  next
    case False
    with Cons.prems(2) rs have "s \<in> set bs" by simp
    with Cons.IH [OF bs] show ?thesis .
  qed
qed

lemma create_source_created_at_unparsed:
  assumes "parse dec (be (sent w @ [\<lparr>rmethod = POST, url = base_url self @ ''/api/sources'',
              headers_of = headers self,
              body = JsonPayload (PDict [(''name'', PStr name),
                       (''description'', opt_str description)])\<rparr>])) = Inr response_obj"
    and "UUID_of uuid_of (sm_id response_obj) = Inr i"
    and "UUID_of uuid_of (sm_user_id response_obj) = Inr uid"
    and "cfg_getitem (sm_embedding_config response_obj) ''embedding_dim'' = Inr dim"
    and "cfg_getitem (sm_embedding_config response_obj) ''embedding_model'' = Inr em"
  shows "fst (create_source be dec uuid_of self name description w) =
           Inr \<lparr>src_id = i, src_name = sm_name response_obj, src_user_id = uid,
                src_created_at = sm_created_at response_obj,
                src_embedding_dim = dim, src_embedding_model = em\<rparr>"
  using assms by (simp add: create_source_def http_def and_then_def)

lemma fake_uuid_of_str_uuid:
  "fake_uuid_of (str_uuid 1) = Some 1" "fake_uuid_of (str_uuid 2) = Some 2"
  by code_simp+

text \<open>
  C1. \<^verbatim>\<open>get_agent_response_to_state\<close> and \<^verbatim>\<open>list_sources\<close> hand out a parsed
  datetime or raise (the lemmas above). \<^verbatim>\<open>RESTClient.create_source\<close> does not: on a
  response with well-formed identifiers whose \<open>created_at\<close> is the text
  \<^verbatim>\<open>not a date\<close> it returns a Source that carries that text as its \<open>created_at\<close>,
  and raises nothing.
\<close>

theorem create_source_raw_created_at:
  "create_source (\<lambda>_. \<lparr>status_code = 200, text_of = ''body''\<rparr>)
     (\<lambda>_. Some \<lparr>sm_name = ''docs'', sm_description = PNone,
                 sm_user_id = IdStr ''00000000-0000-0000-0000-000000000002'',
                 sm_created_at = PStr ''not a date'',
                 sm_id = IdStr ''00000000-0000-0000-0000-000000000001'',
                 sm_embedding_config = CfgDict [(''embedding_dim'', PInt 1536),
                                                (''embedding_model'', PStr ''ada'')]\<rparr>)
     fake_uuid_of
     \<lparr>base_url = ''http://h'', headers = []\<rparr> ''docs'' None \<lparr>sent = [], sleeps = []\<rparr>
   = (Inr \<lparr>src_id = 1, src_name = ''docs'', src_user_id = 2,
           src_created_at = PStr ''not a date'', src_embedding_dim = PInt 1536,
           src_embedding_model = PStr ''ada''\<rparr>,
      \<lparr>sent = [\<lparr>rmethod = POST, url = ''http://h/api/sources'', headers_of = [],
                body = JsonPayload (PDict [(''name'', PStr ''docs''), (''description'', PNone)])\<rparr>],
       sleeps = []\<rparr>)"
  by (simp add: create_source_def http_def parse_def and_then_def UUID_of_def cfg_getitem_def
      getitem_def opt_str_def fake_uuid_of_def)

subsection \<open>Status codes\<close>

text \<open>Methods that look at the status code raise with the body of the response.\<close>

lemma create_agent_non_200:
  assumes "embedding_config = None" and "llm_config = None"
    and "http be \<lparr>rmethod = POST, url = base_url self @ ''/api/agents/create'',
            headers_of = headers self,
            body = JsonPayload (PDict [(''config'', PDict [(''name'', opt_str name),
              (''preset'', opt_str preset), (''persona'', opt_str persona),
              (''human'', opt_str human)])])\<rparr> w = (response, w1)"
    and "status_code response \<noteq> 200"
  shows "create_agent be dec fromtimestamp self name preset persona human embedding_config llm_config w =
           (Inl (ValueError (''Status '' @ str_nat (status_code response) @
              '' - Failed to create agent: '' @ text_of response)), w1)"
  using assms by (simp add: create_agent_def truthy_obj_def)

lemma RESTClient_get_messages_non_200:
  assumes "RESTClient_get_messages be dec self agent_id before after limit w = (r, w1)"
    and "status_code (be (sent w1)) \<noteq> 200"
  shows "r = Inl (ValueError (''Failed to get messages: '' @ text_of (be (sent w1))))"
  using assms by (auto simp: RESTClient_get_messages_def http_def Let_def split: if_splits)

text \<open>
  C2. \<^verbatim>\<open>RESTClient.list_agents\<close> never reads the status code. Answered with status
  500 and a body that decodes, it returns the decoded object; answered with status 500
  and a body that does not decode, it raises the decoder's error, which does not carry
  the body. (\<^verbatim>\<open>create_source\<close> and \<^verbatim>\<open>get_job_status\<close> have the same shape.)
\<close>

theorem list_agents_ignores_status_code:
  "list_agents (\<lambda>_. \<lparr>status_code = 500, text_of = ''{num_agents: 0, agents: []}''\<rparr>)
     (\<lambda>t. if t = ''{num_agents: 0, agents: []}'' then Some \<lparr>num_agents = 0, agents = []\<rparr> else None)
     \<lparr>base_url = ''http://h'', headers = []\<rparr> \<lparr>sent = [], sleeps = []\<rparr>
   = (Inr \<lparr>num_agents = 0, agents = []\<rparr>,
      \<lparr>sent = [\<lparr>rmethod = GET, url = ''http://h/api/agents'', headers_of = [], body = NoPayload\<rparr>],
       sleeps = []\<rparr>)
   \<and> list_agents (\<lambda>_. \<lparr>status_code = 500, text_of = ''Internal Server Error''\<rparr>)
     (\<lambda>t. if t = ''{num_agents: 0, agents: []}'' then Some \<lparr>num_agents = 0, agents = []\<rparr> else None)
     \<lparr>base_url = ''http://h'', headers = []\<rparr> \<lparr>sent = [], sleeps = []\<rparr>
   = (Inl ValidationError,
      \<lparr>sent = [\<lparr>rmethod = GET, url = ''http://h/api/agents'', headers_of = [], body = NoPayload\<rparr>],
       sleeps = []\<rparr>)"
  by (simp add: list_agents_def http_def parse_def)

subsection \<open>The polling loop of load_file_into_source\<close>

lemma str_uuid_nil: "str_uuid 0 = ''00000000-0000-0000-0000-000000000000''"
  by code_simp

lemma str_id_nil: "str_id (IdUuid 0) = ''00000000-0000-0000-0000-000000000000''"
  by (simp add: str_id_def str_uuid_nil)

lemmas fake_simps = fake_backend_def fake_job_def fake_client_def upload_request_def
  status_request_def get_job_status_def http_def parse_def str_id_def sleep_def str_uuid_nil

lemma get_job_status_sleeps:
  "get_job_status be dec self job_id w = (r, w1) \<Longrightarrow> sleeps w1 = sleeps w"
  by (auto simp: get_job_status_def http_def)

lemma loop_completed:
  assumes "get_job_status be dec self job_id w = (Inr job, w1)" and "status job = completed"
  shows "load_file_into_source_loop be dec str_py self job_id w = Some (Inr job, w1)"
  using assms by (subst load_file_into_source_loop.simps) simp

lemma loop_failed:
  assumes "get_job_status be dec self job_id w = (Inr job, w1)" and "status job = failed"
  shows "load_file_into_source_loop be dec str_py self job_id w =
           Some (Inl (ValueError (''Job failed: '' @ str_py (metadata job))), w1)"
  using assms by (subst load_file_into_source_loop.simps) simp

lemma loop_again:
  assumes "poll_again be dec self (job_id, w) (job_id', w')"
  shows "load_file_into_source_loop be dec str_py self job_id w =
         load_file_into_source_loop be dec str_py self job_id' w'"
  using assms
  by (subst load_file_into_source_loop.simps)
     (auto simp: poll_again_def split: prod.splits sum.splits)

lemma loop_again_star:
  assumes "(poll_again be dec self)\<^sup>*\<^sup>* (job_id, w) (job_id', w')"
  shows "load_file_into_source_loop be dec str_py self job_id w =
         load_file_into_source_loop be dec str_py self job_id' w'"
  using assms
proof (induction rule: rtranclp_induct2)
  case refl
  show ?case by simp
next
  case (step a b c d)
  then show ?case by (simp add: loop_again)
qed

lemma loop_returns_completed_aux:
  assumes "load_file_into_source_loop be dec str_py self job_id w = Some y"
  shows "\<forall>job w'. y = (Inr job, w') \<longrightarrow> status job = completed"
  using assms
proof (induction rule: load_file_into_source_loop.raw_induct [rotated 1, consumes 1, case_names 1])
  case (1 loop be dec str_py self job_id w y)
  obtain r w1 where g: "get_job_status be dec self job_id w = (r, w1)"
    by (cases "get_job_status be dec self job_id w") auto
  show ?case
  proof (cases r)
    case (Inl e)
    with g "1.hyps" show ?thesis by auto
  next
    case (Inr job)
    note r = this
    show ?thesis
    proof (cases "status job = completed \<or> status job = failed")
      case True
      with g r "1.hyps" show ?thesis by auto
    next
      case False
      with g r "1.hyps" have l: "loop be dec str_py self (jm_id job) (sleep 1 w1) = Some y"
        by auto
      from l show ?thesis by (rule "1.IH")
    qed
  qed
qed

lemma loop_returns_completed:
  assumes "load_file_into_source_loop be dec str_py self job_id w = Some (Inr job, w')"
  shows "status job = completed"
  using loop_returns_completed_aux [OF assms] by simp

lemma load_file_into_source_blocking_returns_completed:
  assumes "load_file_into_source be dec str_py fopen self filename source_id True w = Some (Inr job, w')"
  shows "status job = completed"
  using assms
  by (auto simp: load_file_into_source_def Let_def
      split: option.splits prod.splits if_splits sum.splits dest: loop_returns_completed)

lemma load_file_into_source_blocking_failed:
  assumes "fopen filename = Some content"
    and "http be \<lparr>rmethod = POST,
            url = base_url self @ ''/api/sources/'' @ str_uuid source_id @ ''/upload'',
            headers_of = headers self, body = FilesPayload [(''file'', content)]\<rparr> w = (response, w1)"
    and "status_code response = 200"
    and "parse dec response = Inr job0"
    and "(poll_again be dec self)\<^sup>*\<^sup>* (jm_id job0, w1) (job_id, w2)"
    and "get_job_status be dec self job_id w2 = (Inr job, w3)"
    and "status job = failed"
  shows "load_file_into_source be dec str_py fopen self filename source_id True w =
           Some (Inl (ValueError (''Job failed: '' @ str_py (metadata job))), w3)"
proof -
  have "load_file_into_source be dec str_py fopen self filename source_id True w =
          load_file_into_source_loop be dec str_py self (jm_id job0) w1"
    using assms(1-4) by (simp add: load_file_into_source_def)
  also have "\<dots> = load_file_into_source_loop be dec str_py self job_id w2"
    using assms(5) by (rule loop_again_star)
  also have "\<dots> = Some (Inl (ValueError (''Job failed: '' @ str_py (metadata job))), w3)"
    using assms(6,7) by (rule loop_failed)
  finally show ?thesis .
qed

text \<open>
  The scenario of a failed ingestion, step by step: the upload is answered with a
  submitted job, the first status query finds it running, the second finds it failed
  with the metadata \<^verbatim>\<open>{"reason": "bad encoding"}\<close>.
\<close>

lemma fake_failed_upload:
  "http (fake_backend [''submitted'', ''running'', ''failed''])
     \<lparr>rmethod = POST,
      url = base_url fake_client @ ''/api/sources/'' @ str_uuid 0 @ ''/upload'',
      headers_of = headers fake_client, body = FilesPayload [(''file'', ''data'')]\<rparr>
     \<lparr>sent = [], sleeps = []\<rparr> =
   (\<lparr>status_code = 200, text_of = ''submitted''\<rparr>, \<lparr>sent = [upload_request], sleeps = []\<rparr>)"
  by (simp add: fake_simps)

lemma fake_failed_submitted:
  "parse fake_job \<lparr>status_code = 200, text_of = ''submitted''\<rparr> =
     Inr \<lparr>jm_id = IdStr ''j1'', status = submitted, metadata = PNone\<rparr>"
  by (simp add: fake_simps)

lemma fake_failed_running:
  "(poll_again (fake_backend [''submitted'', ''running'', ''failed'']) fake_job fake_client)\<^sup>*\<^sup>*
     (jm_id \<lparr>jm_id = IdStr ''j1'', status = submitted, metadata = PNone\<rparr>,
      \<lparr>sent = [upload_request], sleeps = []\<rparr>)
     (IdStr ''j1'', \<lparr>sent = [upload_request, status_request], sleeps = [1]\<rparr>)"
proof -
  have "get_job_status (fake_backend [''submitted'', ''running'', ''failed'']) fake_job fake_client
          (IdStr ''j1'') \<lparr>sent = [upload_request], sleeps = []\<rparr> =
        (Inr \<lparr>jm_id = IdStr ''j1'', status = running, metadata = PNone\<rparr>,
         \<lparr>sent = [upload_request, status_request], sleeps = []\<rparr>)"
    by (simp add: fake_simps)
  then have "poll_again (fake_backend [''submitted'', ''running'', ''failed'']) fake_job fake_client
          (jm_id \<lparr>jm_id = IdStr ''j1'', status = submitted, metadata = PNone\<rparr>,
           \<lparr>sent = [upload_request], sleeps = []\<rparr>)
          (IdStr ''j1'', \<lparr>sent = [upload_request, status_request], sleeps = [1]\<rparr>)"
    by (simp add: poll_again_def sleep_def)
  then show ?thesis by (rule r_into_rtranclp)
qed

lemma fake_failed_failed:
  "get_job_status (fake_backend [''submitted'', ''running'', ''failed'']) fake_job fake_client
     (IdStr ''j1'') \<lparr>sent = [upload_request, status_request], sleeps = [1]\<rparr> =
   (Inr \<lparr>jm_id = IdStr ''j1'', status = failed,
          metadata = PDict [(''reason'', PStr ''bad encoding'')]\<rparr>,
    \<lparr>sent = [upload_request, status_request, status_request], sleeps = [1]\<rparr>)"
  by (simp add: fake_simps)

text \<open>
  C3, as the claim states it. In that scenario the call raises ValueError, and what the
  exception carries is the text \<^verbatim>\<open>Job failed: {'reason': 'bad encoding'}\<close>. That is
  not the job's metadata: the metadata is a dictionary and the payload is a text, and
  the text is not the text of the metadata either, for it begins with
  \<^verbatim>\<open>Job failed: \<close>.
\<close>

theorem load_file_into_source_failed_payload_counterexample:
  "load_file_into_source (fake_backend [''submitted'', ''running'', ''failed'']) fake_job fake_str
     (\<lambda>f. if f = ''notes.txt'' then Some ''data'' else None) fake_client ''notes.txt'' 0 True
     \<lparr>sent = [], sleeps = []\<rparr> =
   Some (Inl (ValueError ''Job failed: {'reason': 'bad encoding'}''),
         \<lparr>sent = [upload_request, status_request, status_request], sleeps = [1]\<rparr>)
   \<and> PStr ''Job failed: {'reason': 'bad encoding'}'' \<noteq> PDict [(''reason'', PStr ''bad encoding'')]
   \<and> ''Job failed: {'reason': 'bad encoding'}'' \<noteq> fake_str (PDict [(''reason'', PStr ''bad encoding'')])"
proof -
  have "(if ''notes.txt'' = ''notes.txt'' then Some ''data'' else None) = Some ''data''"
    by simp
  from load_file_into_source_blocking_failed [where str_py = fake_str
      and fopen = "\<lambda>f. if f = ''notes.txt'' then Some ''data'' else None"
      and be = "fake_backend [''submitted'', ''running'', ''failed'']" and dec = fake_job
      and self = fake_client and filename = "''notes.txt''" and content = "''data''"
      and source_id = 0, OF this fake_failed_upload _ fake_failed_submitted fake_failed_running
      fake_failed_failed]
  show ?thesis by (simp add: fake_str_def)
qed

text \<open>
  C3, amended. A blocking \<^verbatim>\<open>load_file_into_source\<close> whose upload succeeds and whose
  status queries, after any number of turns that found the job neither completed nor
  failed, report a failed job, raises ValueError with the text \<^verbatim>\<open>Job failed: \<close>
  followed by the text \<^verbatim>\<open>str\<close> gives for the job's metadata. And whenever a blocking
  call returns a job at all, that job is completed: a failed job is never returned.
\<close>

theorem load_file_into_source_failed_job_raises:
  assumes "fopen filename = Some content"
    and "http be \<lparr>rmethod = POST,
            url = base_url self @ ''/api/sources/'' @ str_uuid source_id @ ''/upload'',
            headers_of = headers self, body = FilesPayload [(''file'', content)]\<rparr> w = (response, w1)"
    and "status_code response = 200"
    and "parse dec response = Inr job0"
    and "(poll_again be dec self)\<^sup>*\<^sup>* (jm_id job0, w1) (job_id, w2)"
    and "get_job_status be dec self job_id w2 = (Inr job, w3)"
    and "status job = failed"
  shows "load_file_into_source be dec str_py fopen self filename source_id True w =
           Some (Inl (ValueError (''Job failed: '' @ str_py (metadata job))), w3)
         \<and> (\<forall>fn sid w0 j w'.
               load_file_into_source be dec str_py fopen self fn sid True w0 = Some (Inr j, w')
               \<longrightarrow> status j = completed)"
proof
  show "load_file_into_source be dec str_py fopen self filename source_id True w =
           Some (Inl (ValueError (''Job failed: '' @ str_py (metadata job))), w3)"
    using assms by (rule load_file_into_source_blocking_failed)
  show "\<forall>fn sid w0 j w'.
               load_file_into_source be dec str_py fopen self fn sid True w0 = Some (Inr j, w')
               \<longrightarrow> status j = completed"
    using load_file_into_source_blocking_returns_completed by blast
qed

theorem load_file_into_source_failed_job_raises_witness:
  "load_file_into_source (fake_backend [''submitted'', ''running'', ''failed'']) fake_job fake_str
     (\<lambda>f. if f = ''notes.txt'' then Some ''data'' else None) fake_client ''notes.txt'' 0 True
     \<lparr>sent = [], sleeps = []\<rparr> =
   Some (Inl (ValueError ''Job failed: {'reason': 'bad encoding'}''),
         \<lparr>sent = [upload_request, status_request, status_request], sleeps = [1]\<rparr>)"
proof -
  have "(if ''notes.txt'' = ''notes.txt'' then Some ''data'' else None) = Some ''data''"
    by simp
  from load_file_into_source_failed_job_raises [where str_py = fake_str
      and fopen = "\<lambda>f. if f = ''notes.txt'' then Some ''data'' else None"
      and be = "fake_backend [''submitted'', ''running'', ''failed'']" and dec = fake_job
      and self = fake_client and filename = "''notes.txt''" and content = "''data''"
      and source_id = 0, OF this fake_failed_upload _ fake_failed_submitted fake_failed_running
      fake_failed_failed]
  show ?thesis by (simp add: fake_str_def)
qed

text \<open>
  C6. A blocking \<^verbatim>\<open>load_file_into_source\<close> whose upload succeeds and whose status
  queries report a running job twice and then a completed one returns the completed
  job, and has slept exactly twice on the way, one time unit each.
\<close>

theorem load_file_into_source_two_sleeps:
  assumes "fopen filename = Some content"
    and "http be \<lparr>rmethod = POST,
            url = base_url self @ ''/api/sources/'' @ str_uuid source_id @ ''/upload'',
            headers_of = headers self, body = FilesPayload [(''file'', content)]\<rparr> w = (response, w1)"
    and "status_code response = 200"
    and "parse dec response = Inr job0"
    and "get_job_status be dec self (jm_id job0) w1 = (Inr job1, w2)" and "status job1 = running"
    and "get_job_status be dec self (jm_id job1) (sleep 1 w2) = (Inr job2, w3)" and "status job2 = running"
    and "get_job_status be dec self (jm_id job2) (sleep 1 w3) = (Inr job3, w4)" and "status job3 = completed"
  shows "load_file_into_source be dec str_py fopen self filename source_id True w = Some (Inr job3, w4)
         \<and> sleeps w4 = sleeps w @ [1, 1]"
proof
  have p1: "poll_again be dec self (jm_id job0, w1) (jm_id job1, sleep 1 w2)"
    using assms(5,6) by (simp add: poll_again_def)
  have p2: "poll_again be dec self (jm_id job1, sleep 1 w2) (jm_id job2, sleep 1 w3)"
    using assms(7,8) by (simp add: poll_again_def)
  have "load_file_into_source be dec str_py fopen self filename source_id True w =
          load_file_into_source_loop be dec str_py self (jm_id job0) w1"
    using assms(1-4) by (simp add: load_file_into_source_def)
  also have "\<dots> = load_file_into_source_loop be dec str_py self (jm_id job1) (sleep 1 w2)"
    using p1 by (rule loop_again)
  also have "\<dots> = load_file_into_source_loop be dec str_py self (jm_id job2) (sleep 1 w3)"
    using p2 by (rule loop_again)
  also have "\<dots> = Some (Inr job3, w4)"
    using assms(9,10) by (rule loop_completed)
  finally show "load_file_into_source be dec str_py fopen self filename source_id True w =
                  Some (Inr job3, w4)" .
  have "sleeps w1 = sleeps w"
    using assms(2) by (auto simp: http_def)
  moreover have "sleeps w2 = sleeps w1"
    using assms(5) by (rule get_job_status_sleeps)
  moreover have "sleeps w3 = sleeps (sleep 1 w2)"
    using assms(7) by (rule get_job_status_sleeps)
  moreover have "sleeps w4 = sleeps (sleep 1 w3)"
    using assms(9) by (rule get_job_status_sleeps)
  ultimately show "sleeps w4 = sleeps w @ [1, 1]"
    by (simp add: sleep_def)
qed

theorem load_file_into_source_two_sleeps_witness:
  "load_file_into_source (fake_backend [''submitted'', ''running'', ''running'', ''completed''])
     fake_job fake_str (\<lambda>f. if f = ''notes.txt'' then Some ''data'' else None) fake_client
     ''notes.txt'' 0 True \<lparr>sent = [], sleeps = []\<rparr> =
   Some (Inr \<lparr>jm_id = IdStr ''j1'', status = completed, metadata = PNone\<rparr>,
         \<lparr>sent = [upload_request, status_request, status_request, status_request],
          sleeps = [1, 1]\<rparr>)"
proof -
  let ?be = "fake_backend [''submitted'', ''running'', ''running'', ''completed'']"
  let ?fopen = "\<lambda>f. if f = ''notes.txt'' then Some ''data'' else None"
  let ?w = "\<lparr>sent = [], sleeps = []\<rparr>"
  let ?wa = "\<lparr>sent = [upload_request], sleeps = []\<rparr>"
  let ?wb = "\<lparr>sent = [upload_request, status_request], sleeps = []\<rparr>"
  let ?wc = "\<lparr>sent = [upload_request, status_request, status_request], sleeps = [1]\<rparr>"
  let ?wd = "\<lparr>sent = [upload_request, status_request, status_request, status_request],
              sleeps = [1, 1]\<rparr>"
  let ?first = "\<lparr>jm_id = IdStr ''j1'', status = submitted, metadata = PNone\<rparr>"
  let ?run = "\<lparr>jm_id = IdStr ''j1'', status = running, metadata = PNone\<rparr>"
  let ?done = "\<lparr>jm_id = IdStr ''j1'', status = completed, metadata = PNone\<rparr>"
  have h1: "?fopen ''notes.txt'' = Some ''data''" by simp
  have h2: "http ?be \<lparr>rmethod = POST,
            url = base_url fake_client @ ''/api/sources/'' @ str_uuid 0 @ ''/upload'',
            headers_of = headers fake_client, body = FilesPayload [(''file'', ''data'')]\<rparr> ?w =
            (\<lparr>status_code = 200, text_of = ''submitted''\<rparr>, ?wa)"
    by (simp add: fake_simps)
  have h3: "status_code \<lparr>status_code = 200, text_of = ''submitted''\<rparr> = 200" by simp
  have h4: "parse fake_job \<lparr>status_code = 200, text_of = ''submitted''\<rparr> = Inr ?first"
    by (simp add: fake_simps)
  have h5: "get_job_status ?be fake_job fake_client (jm_id ?first) ?wa = (Inr ?run, ?wb)"
    by (simp add: fake_simps)
  have h6: "status ?run = running" by simp
  have h7: "get_job_status ?be fake_job fake_client (jm_id ?run) (sleep 1 ?wb) = (Inr ?run, ?wc)"
    by (simp add: fake_simps)
  have h8: "get_job_status ?be fake_job fake_client (jm_id ?run) (sleep 1 ?wc) = (Inr ?done, ?wd)"
    by (simp add: fake_simps)
  have h9: "status ?done = completed" by simp
  from load_file_into_source_two_sleeps [where str_py = fake_str and fopen = ?fopen
      and be = ?be and dec = fake_job and self = fake_client and filename = "''notes.txt''"
      and content = "''data''" and source_id = 0,
      OF h1 h2 h3 h4 h5 h6 h7 h6 h8 h9]
  show ?thesis by simp
qed

subsection \<open>agent_exists\<close>

text \<open>\<^verbatim>\<open>LocalClient.agent_exists\<close> rejects both and neither.\<close>

lemma LocalClient_agent_exists_both:
  "truthy_str agent_id \<Longrightarrow> truthy_str agent_name \<Longrightarrow>
   LocalClient_agent_exists clear srv_list_agents subscript self agent_id agent_name st =
     (Inl (ValueError ''Only one of agent_id or agent_name can be provided''), st)"
  by (simp add: LocalClient_agent_exists_def)

lemma LocalClient_agent_exists_neither:
  "\<not> truthy_str agent_id \<Longrightarrow> \<not> truthy_str agent_name \<Longrightarrow>
   LocalClient_agent_exists clear srv_list_agents subscript self agent_id agent_name st =
     (Inl (ValueError ''Either agent_id or agent_name must be provided''), st)"
  by (simp add: LocalClient_agent_exists_def)

lemma LocalClient_agent_exists_not_subscriptable:
  assumes "truthy_str agent_id \<noteq> truthy_str agent_name"
    and "\<And>r. subscript r ''agents'' = Inl TypeError"
  shows "LocalClient_agent_exists clear srv_list_agents subscript self agent_id agent_name st =
           (Inl TypeError, st\<lparr>interface := clear (interface st)\<rparr>)"
  using assms
  by (auto simp: LocalClient_agent_exists_def LocalClient_list_agents_def and_then_def Let_def)

text \<open>
  C4. \<^verbatim>\<open>RESTClient.agent_exists\<close> checks nothing: called with both an id and a name
  it queries the id and answers \<^verbatim>\<open>True\<close> on status 200; called with neither it
  queries the id \<^verbatim>\<open>None\<close> and answers \<^verbatim>\<open>False\<close> on status 404. No error is raised
  in either call.
\<close>

theorem RESTClient_agent_exists_unvalidated:
  "agent_exists (\<lambda>_. \<lparr>status_code = 200, text_of = ''{}''\<rparr>)
     \<lparr>base_url = ''http://h'', headers = []\<rparr> (Some ''a1'') (Some ''bob'') \<lparr>sent = [], sleeps = []\<rparr>
   = (Inr True,
      \<lparr>sent = [\<lparr>rmethod = GET, url = ''http://h/api/agents/a1/config'', headers_of = [],
                body = NoPayload\<rparr>], sleeps = []\<rparr>)
   \<and> agent_exists (\<lambda>_. \<lparr>status_code = 404, text_of = ''{}''\<rparr>)
     \<lparr>base_url = ''http://h'', headers = []\<rparr> None None \<lparr>sent = [], sleeps = []\<rparr>
   = (Inr False,
      \<lparr>sent = [\<lparr>rmethod = GET, url = ''http://h/api/agents/None/config'', headers_of = [],
                body = NoPayload\<rparr>], sleeps = []\<rparr>)"
  by (simp add: agent_exists_def http_def str_opt_def)

subsection \<open>Overrides on the remote strategy\<close>

text \<open>
  C5. \<^verbatim>\<open>RESTClient.create_agent\<close> called with an \<open>embedding_config\<close> or an \<open>llm_config\<close>
  that is not \<^verbatim>\<open>None\<close> raises the ValueError of the override check, and the world is
  returned as it was: no request has been issued.
\<close>

theorem create_agent_override_rejected:
  assumes "embedding_config \<noteq> None \<or> llm_config \<noteq> None"
  shows "create_agent be dec fromtimestamp self name preset persona human embedding_config llm_config w =
           (Inl (ValueError ''Cannot override embedding_config or llm_config when creating agent via REST API''), w)"
  using assms by (auto simp: create_agent_def truthy_obj_def split: option.splits)

theorem create_agent_override_rejected_witness:
  "create_agent (\<lambda>_. \<lparr>status_code = 200, text_of = []\<rparr>) (\<lambda>_. None) (\<lambda>t. Some (Datetime t))
     \<lparr>base_url = ''http://localhost:8283'', headers = []\<rparr> (Some ''agent'') None None None
     (Some \<lparr>embedding_endpoint_type = PStr ''openai'', embedding_endpoint = PNone,
            embedding_model = PStr ''ada'', embedding_dim = PInt 1536,
            embedding_chunk_size = PInt 300\<rparr>) None \<lparr>sent = [], sleeps = []\<rparr>
   = (Inl (ValueError ''Cannot override embedding_config or llm_config when creating agent via REST API''),
      \<lparr>sent = [], sleeps = []\<rparr>)"
  by (rule create_agent_override_rejected) simp

subsection \<open>Construction of the local strategy\<close>

lemma ms_get_user_None_iff:
  "ms_get_user ms uid = None \<longleftrightarrow> (\<forall>u \<in> set (users ms). user_id u \<noteq> uid)"
  by (auto simp: ms_get_user_def find_None_iff)

lemma ms_get_user_member:
  "u \<in> set (users ms) \<Longrightarrow> user_id u = uid \<Longrightarrow> ms_get_user ms uid \<noteq> None"
  by (auto simp: ms_get_user_None_iff)

lemma upsert_user:
  fixes ms :: "'p MetadataStore"
  assumes "user_id user = uid"
  shows "(if truthy_obj (ms_get_user ms uid) then Inr (ms_update_user user ms)
          else ms_create_user user ms) =
         Inr (ms\<lparr>users := (if ms_get_user ms uid = None then users ms @ [user]
                   else map (\<lambda>u. if user_id u = uid then user else u) (users ms))\<rparr>)"
proof (cases "ms_get_user ms uid")
  case None
  then have "\<not> list_ex (\<lambda>u. user_id u = user_id user) (users ms)"
    using assms by (simp add: ms_get_user_None_iff list_ex_iff)
  with None show ?thesis by (simp add: truthy_obj_def ms_create_user_def)
next
  case (Some a)
  then show ?thesis using assms by (simp add: truthy_obj_def ms_update_user_def)
qed

lemma upserted_users_all_fresh:
  assumes "user_id user = uid"
    and "u \<in> set (if ms_get_user ms uid = None then users ms @ [user]
                 else map (\<lambda>u. if user_id u = uid then user else u) (users ms))"
    and "user_id u = uid"
  shows "u = user"
  using assms by (auto simp: ms_get_user_None_iff split: if_splits)

lemma map_refresh_id:
  assumes "\<forall>u \<in> set xs. user_id u = uid \<longrightarrow> u = user"
  shows "map (\<lambda>u. if user_id u = uid then user else u) xs = xs"
  using assms by (induction xs) auto

lemma count_refreshed:
  assumes "user_id user = uid"
  shows "length (filter (\<lambda>u. user_id u = uid) (map (\<lambda>u. if user_id u = uid then user else u) xs)) =
         length (filter (\<lambda>u. user_id u = uid) xs)"
  using assms by (induction xs) auto

lemma LocalClient_init_eq:
  fixes ms :: "'p MetadataStore"
  assumes "uuid_of (case user_id_arg of None \<Rightarrow> anon_clientid config
                    | Some s \<Rightarrow> if s \<noteq> [] then s else anon_clientid config) = Some uid"
  shows "LocalClient_init uuid_of add_default_presets new_interface new_server config a user_id_arg ms =
     Inr (\<lparr>auto_save = a, lc_user_id = uid,
           lc_user = \<lparr>user_id = uid, default_agent = None, policies_accepted = False\<rparr>\<rparr>,
          \<lparr>interface = new_interface, server = new_server\<rparr>,
          ms\<lparr>users := (if ms_get_user ms uid = None
                        then users ms @ [\<lparr>user_id = uid, default_agent = None, policies_accepted = False\<rparr>]
                        else map (\<lambda>u. if user_id u = uid
                                       then \<lparr>user_id = uid, default_agent = None, policies_accepted = False\<rparr>
                                       else u) (users ms)),
              presets := add_default_presets uid (presets ms)\<rparr>)"
proof -
  let ?user = "\<lparr>user_id = uid, default_agent = None, policies_accepted = False\<rparr>"
  have u: "user_id ?user = uid" by simp
  show ?thesis
    unfolding LocalClient_init_def UUID_of_def
    using assms by (simp add: and_then_def Let_def upsert_user [OF u])
qed

text \<open>
  C7. When the user id resolves to a UUID, \<^verbatim>\<open>LocalClient.__init__\<close> does not raise:
  it appends the User record when the store has none of that id, and refreshes the
  records of that id otherwise. Constructing a second client on the resulting store
  does not raise either and leaves the User records as they are; the number of records
  of that id after the first construction is the number before, or one when there was
  none.
\<close>

theorem LocalClient_init_upsert:
  fixes ms :: "'p MetadataStore"
  assumes "uuid_of (case user_id_arg of None \<Rightarrow> anon_clientid config
                    | Some s \<Rightarrow> if s \<noteq> [] then s else anon_clientid config) = Some uid"
  shows "\<exists>c st ms1 c' st' ms2.
     LocalClient_init uuid_of add_default_presets new_interface new_server config a user_id_arg ms =
       Inr (c, st, ms1) \<and>
     users ms1 =
       (if ms_get_user ms uid = None
        then users ms @ [\<lparr>user_id = uid, default_agent = None, policies_accepted = False\<rparr>]
        else map (\<lambda>u. if user_id u = uid
                       then \<lparr>user_id = uid, default_agent = None, policies_accepted = False\<rparr>
                       else u) (users ms)) \<and>
     LocalClient_init uuid_of add_default_presets new_interface new_server config a user_id_arg ms1 =
       Inr (c', st', ms2) \<and>
     users ms2 = users ms1 \<and>
     length (filter (\<lambda>u. user_id u = uid) (users ms1)) =
       max 1 (length (filter (\<lambda>u. user_id u = uid) (users ms)))"
proof -
  let ?user = "\<lparr>user_id = uid, default_agent = None, policies_accepted = False\<rparr>"
  let ?us = "if ms_get_user ms uid = None then users ms @ [?user]
             else map (\<lambda>u. if user_id u = uid then ?user else u) (users ms)"
  let ?ms1 = "ms\<lparr>users := ?us, presets := add_default_presets uid (presets ms)\<rparr>"
  have u: "user_id ?user = uid" by simp
  have first: "LocalClient_init uuid_of add_default_presets new_interface new_server config a
                 user_id_arg ms =
               Inr (\<lparr>auto_save = a, lc_user_id = uid, lc_user = ?user\<rparr>,
                    \<lparr>interface = new_interface, server = new_server\<rparr>, ?ms1)"
    using LocalClient_init_eq [where uuid_of = uuid_of and user_id_arg = user_id_arg
        and config = config and uid = uid and ms = ms, OF assms] .
  have users1: "users ?ms1 = ?us" by simp
  have fresh: "\<forall>u \<in> set ?us. user_id u = uid \<longrightarrow> u = ?user"
    using upserted_users_all_fresh [OF u] by blast
  have "?user \<in> set ?us"
  proof (cases "ms_get_user ms uid = None")
    case True
    then show ?thesis by simp
  next
    case False
    then obtain x where "x \<in> set (users ms)" "user_id x = uid"
      by (auto simp: ms_get_user_None_iff)
    then have "(\<lambda>u. if user_id u = uid then ?user else u) x \<in> set ?us"
      using False by (simp del: if_split)
    then show ?thesis using \<open>user_id x = uid\<close> by simp
  qed
  then have "?user \<in> set (users ?ms1)"
    by (simp only: users1)
  then have there: "ms_get_user ?ms1 uid \<noteq> None"
    using u by (rule ms_get_user_member)
  let ?ms2 = "?ms1\<lparr>users := map (\<lambda>u. if user_id u = uid then ?user else u) (users ?ms1),
                   presets := add_default_presets uid (presets ?ms1)\<rparr>"
  have second: "LocalClient_init uuid_of add_default_presets new_interface new_server config a
                 user_id_arg ?ms1 =
               Inr (\<lparr>auto_save = a, lc_user_id = uid, lc_user = ?user\<rparr>,
                    \<lparr>interface = new_interface, server = new_server\<rparr>, ?ms2)"
    by (subst LocalClient_init_eq [where uuid_of = uuid_of and user_id_arg = user_id_arg
          and config = config and uid = uid and ms = ?ms1, OF assms])
       (simp only: there if_False)
  have same: "users ?ms2 = users ?ms1"
    using map_refresh_id [OF fresh] by simp
  have count: "length (filter (\<lambda>u. user_id u = uid) ?us) =
               max 1 (length (filter (\<lambda>u. user_id u = uid) (users ms)))"
  proof (cases "ms_get_user ms uid = None")
    case True
    then have "filter (\<lambda>u. user_id u = uid) (users ms) = []"
      by (simp add: ms_get_user_None_iff filter_empty_conv)
    with True show ?thesis by simp
  next
    case False
    then obtain x where "x \<in> set (users ms)" "user_id x = uid"
      by (auto simp: ms_get_user_None_iff)
    then have "filter (\<lambda>u. user_id u = uid) (users ms) \<noteq> []"
      by (auto simp: filter_empty_conv)
    then have "1 \<le> length (filter (\<lambda>u. user_id u = uid) (users ms))"
      by (cases "filter (\<lambda>u. user_id u = uid) (users ms)") auto
    moreover have "?us = map (\<lambda>u. if user_id u = uid then ?user else u) (users ms)"
      using False by simp
    then have "length (filter (\<lambda>u. user_id u = uid) ?us) =
               length (filter (\<lambda>u. user_id u = uid) (users ms))"
      by (simp only: count_refreshed [OF u])
    ultimately show ?thesis by (simp only: max_def) simp
  qed
  from first users1 second same count show ?thesis
    by (intro exI conjI) (assumption | simp only: users1)+
qed

theorem LocalClient_init_upsert_witness:
  "\<exists>c st ms1 c' st' ms2.
     LocalClient_init fake_uuid_of (\<lambda>uid p. p) () () \<lparr>anon_clientid = ''00000000-0000-0000-0000-000000000001''\<rparr> False (Some ''00000000-0000-0000-0000-000000000002'')
       \<lparr>users = [\<lparr>user_id = 1, default_agent = Some ''a'', policies_accepted = True\<rparr>],
        presets = ()\<rparr> = Inr (c, st, ms1) \<and>
     users ms1 = [\<lparr>user_id = 1, default_agent = Some ''a'', policies_accepted = True\<rparr>,
                  \<lparr>user_id = 2, default_agent = None, policies_accepted = False\<rparr>] \<and>
     LocalClient_init fake_uuid_of (\<lambda>uid p. p) () () \<lparr>anon_clientid = ''00000000-0000-0000-0000-000000000001''\<rparr> False (Some ''00000000-0000-0000-0000-000000000002'')
       ms1 = Inr (c', st', ms2) \<and>
     users ms2 = users ms1 \<and>
     length (filter (\<lambda>u. user_id u = 2) (users ms1)) = 1"
proof -
  have h: "fake_uuid_of (case Some ''00000000-0000-0000-0000-000000000002'' of None \<Rightarrow> anon_clientid \<lparr>anon_clientid = ''00000000-0000-0000-0000-000000000001''\<rparr>
             | Some s \<Rightarrow> if s \<noteq> [] then s else anon_clientid \<lparr>anon_clientid = ''00000000-0000-0000-0000-000000000001''\<rparr>) = Some 2"
    by (simp add: fake_uuid_of_def)
  from LocalClient_init_upsert [where uuid_of = fake_uuid_of and user_id_arg = "Some ''00000000-0000-0000-0000-000000000002''"
      and config = "\<lparr>anon_clientid = ''00000000-0000-0000-0000-000000000001''\<rparr>" and uid = 2 and add_default_presets = "\<lambda>uid p. p"
      and new_interface = "()" and new_server = "()" and a = False
      and ms = "\<lparr>users = [\<lparr>user_id = 1, default_agent = Some ''a'', policies_accepted = True\<rparr>],
                  presets = ()\<rparr>", OF h]
  show ?thesis by (simp add: ms_get_user_def)
qed

subsection \<open>get_messages on the local strategy\<close>

text \<open>
  C8. \<^verbatim>\<open>LocalClient\<close> defines no \<^verbatim>\<open>get_messages\<close>, so the call resolves to
  \<^verbatim>\<open>AbstractClient.get_messages\<close>: for all arguments it raises NotImplementedError
  and leaves the world untouched.
\<close>

theorem LocalClient_get_messages_not_implemented:
  "get_messages LocalClient_class be dec self agent_id before after limit w =
     (Inl NotImplementedError, w)"
  by (simp add: get_messages_def resolve_def mro_def class_methods_def AbstractClient_get_messages_def)

subsection \<open>user_message on the local strategy\<close>

text \<open>
  C9. Let the server's \<^verbatim>\<open>user_message\<close>, run on the cleared interface, return
  normally and leave the interface \<open>q\<close>. With \<open>auto_save\<close> off,
  \<^verbatim>\<open>LocalClient.user_message\<close> returns the UserMessageResponse holding exactly the
  messages \<open>to_list\<close> drains from \<open>q\<close>. With \<open>auto_save\<close> on it never returns a
  response object: it saves the agents and returns \<^verbatim>\<open>None\<close>, the interface still
  holding \<open>q\<close>.
\<close>

theorem LocalClient_user_message_result:
  assumes "srv_user_message (lc_user_id self) agent_id message (clear (interface st)) (server st) =
             (Inr (), q, srv)"
  shows "(\<not> auto_save self \<longrightarrow>
            LocalClient_user_message clear to_list srv_user_message save_agents self agent_id message st =
              (Inr (Some \<lparr>messages = fst (to_list q)\<rparr>),
               st\<lparr>interface := snd (to_list q), server := srv\<rparr>))
       \<and> (auto_save self \<longrightarrow>
            (\<forall>r. fst (LocalClient_user_message clear to_list srv_user_message save_agents self
                        agent_id message st) \<noteq> Inr (Some r))
          \<and> (\<forall>srv'. save_agents srv = Inr srv' \<longrightarrow>
                LocalClient_user_message clear to_list srv_user_message save_agents self agent_id message st =
                  (Inr None, st\<lparr>interface := q, server := srv'\<rparr>)))"
  using assms
  by (auto simp: LocalClient_user_message_def LocalClient_save_def Let_def
      split: prod.splits sum.splits)

theorem LocalClient_user_message_result_witness:
  "LocalClient_user_message (\<lambda>q. []) (\<lambda>q. (q, [])) (\<lambda>uid a m q s. (Inr (), q @ [PStr m], Suc s))
     (\<lambda>s. Inr s) \<lparr>auto_save = False, lc_user_id = 1,
                    lc_user = \<lparr>user_id = 1, default_agent = None, policies_accepted = False\<rparr>\<rparr>
     ''agent'' ''hello'' \<lparr>interface = [PStr ''old''], server = (0::nat)\<rparr> =
       (Inr (Some \<lparr>messages = [PStr ''hello'']\<rparr>), \<lparr>interface = [], server = 1\<rparr>)
   \<and> LocalClient_user_message (\<lambda>q. []) (\<lambda>q. (q, [])) (\<lambda>uid a m q s. (Inr (), q @ [PStr m], Suc s))
     (\<lambda>s. Inr s) \<lparr>auto_save = True, lc_user_id = 1,
                    lc_user = \<lparr>user_id = 1, default_agent = None, policies_accepted = False\<rparr>\<rparr>
     ''agent'' ''hello'' \<lparr>interface = [PStr ''old''], server = (0::nat)\<rparr> =
       (Inr None, \<lparr>interface = [PStr ''hello''], server = 1\<rparr>)"
proof -
  let ?srv = "\<lambda>(uid::UUID) (a::string) m q (s::nat). (Inr () :: error + unit, q @ [PStr m], Suc s)"
  let ?st = "\<lparr>interface = [PStr ''old''], server = (0::nat)\<rparr>"
  let ?off = "\<lparr>auto_save = False, lc_user_id = 1,
                lc_user = \<lparr>user_id = 1, default_agent = None, policies_accepted = False\<rparr>\<rparr>"
  let ?on = "\<lparr>auto_save = True, lc_user_id = 1,
               lc_user = \<lparr>user_id = 1, default_agent = None, policies_accepted = False\<rparr>\<rparr>"
  have h1: "?srv (lc_user_id ?off) ''agent'' ''hello'' ((\<lambda>q. []) (interface ?st)) (server ?st) =
              (Inr (), [PStr ''hello''], 1)" by simp
  have h2: "?srv (lc_user_id ?on) ''agent'' ''hello'' ((\<lambda>q. []) (interface ?st)) (server ?st) =
              (Inr (), [PStr ''hello''], 1)" by simp
  from LocalClient_user_message_result [where srv_user_message = ?srv and self = ?off
      and clear = "\<lambda>q. []" and st = ?st and to_list = "\<lambda>q. (q, [])" and save_agents = "\<lambda>s. Inr s",
      OF h1]
    LocalClient_user_message_result [where srv_user_message = ?srv and self = ?on
      and clear = "\<lambda>q. []" and st = ?st and to_list = "\<lambda>q. (q, [])" and save_agents = "\<lambda>s. Inr s",
      OF h2]
  show ?thesis by simp
qed

subsection \<open>delete_source with an unknown name\<close>

lemma delete_source_loop_no_match:
  "\<forall>s \<in> set ss. sm_name s \<noteq> source_name \<Longrightarrow> delete_source_loop ss source_name source_id = source_id"
  by (induction ss) auto

text \<open>
  C10. When the listing decodes and no source in it has the given name,
  \<^verbatim>\<open>RESTClient.delete_source\<close> issues, after the listing request, a DELETE for the
  nil UUID \<^verbatim>\<open>00000000-0000-0000-0000-000000000000\<close>. What it returns is decided by
  the status of that request alone: nothing, or the AssertionError of a status other
  than 200. No error says that the source is missing.
\<close>

theorem delete_source_unknown_name_nil_uuid:
  fixes self :: RESTClient
  defines "listing \<equiv> \<lparr>rmethod = GET, url = base_url self @ ''/api/sources'',
              headers_of = headers self, body = NoPayload\<rparr>"
    and "deletion \<equiv> \<lparr>rmethod = DELETE,
              url = base_url self @ ''/api/sources/00000000-0000-0000-0000-000000000000'',
              headers_of = headers self, body = NoPayload\<rparr>"
  assumes r: "parse dec (be (sent w @ [listing])) = Inr r"
    and no: "\<forall>s \<in> set (sources r). sm_name s \<noteq> source_name"
  shows "delete_source be dec self source_name w =
       (if status_code (be (sent w @ [listing, deletion])) = 200 then Inr ()
        else Inl (AssertionError (''Failed to delete source: '' @
                    text_of (be (sent w @ [listing, deletion])))),
        w\<lparr>sent := sent w @ [listing, deletion]\<rparr>)"
proof -
  have loop: "delete_source_loop (sources r) source_name (IdUuid 0) = IdUuid 0"
    using no by (rule delete_source_loop_no_match)
  show ?thesis
    using r by (simp add: delete_source_def http_def loop str_id_nil listing_def deletion_def)
qed

theorem delete_source_unknown_name_nil_uuid_witness:
  "delete_source fake_sources_backend fake_listing fake_client ''papers'' \<lparr>sent = [], sleeps = []\<rparr> =
     (Inl (AssertionError ''Failed to delete source: Source not found''),
      \<lparr>sent = [\<lparr>rmethod = GET, url = ''http://h/api/sources'', headers_of = [], body = NoPayload\<rparr>,
               \<lparr>rmethod = DELETE,
                url = ''http://h/api/sources/00000000-0000-0000-0000-000000000000'',
                headers_of = [], body = NoPayload\<rparr>],
       sleeps = []\<rparr>)"
proof -
  let ?r = "\<lparr>sources = [\<lparr>sm_name = ''docs'', sm_description = PNone, sm_user_id = IdStr ''u1'',
                         sm_created_at = PStr ''2024-01-01T00:00:00.000000'',
                         sm_id = IdStr ''s1'', sm_embedding_config = CfgDict []\<rparr>]\<rparr>"
  let ?w = "\<lparr>sent = [], sleeps = []\<rparr>"
  have h1: "parse fake_listing (fake_sources_backend (sent ?w @
              [\<lparr>rmethod = GET, url = base_url fake_client @ ''/api/sources'',
                headers_of = headers fake_client, body = NoPayload\<rparr>])) = Inr ?r"
    by (simp add: parse_def fake_listing_def fake_sources_backend_def)
  have h2: "\<forall>s \<in> set (sources ?r). sm_name s \<noteq> ''papers''" by simp
  from delete_source_unknown_name_nil_uuid [where dec = fake_listing and be = fake_sources_backend
      and w = ?w and self = fake_client and r = ?r and source_name = "''papers''", OF h1 h2]
  show ?thesis by (simp add: fake_sources_backend_def fake_client_def)
qed

end
